theory Spec2Isabelle
  imports Main
begin

section \<open>Data model of the store (src/src/store/useStore.ts, lines 4-34)\<close>

text \<open>
  The string unions of the interfaces are datatypes, the interfaces are records. Record
  fields carry a prefix because \<open>id\<close>, \<open>name\<close>, \<open>description\<close> and \<open>createdAt\<close> occur in
  several interfaces. An optional property (\<open>avatar?\<close>, \<open>id?\<close>) is an \<open>option\<close>.
\<close>

datatype Status = todo | in_progress | completed

datatype Priority = low | medium | high

datatype Theme = light | dark

record User =
  u_id :: string
  u_name :: string
  u_email :: string
  u_avatar :: "string option"

record Task =
  t_id :: string
  t_projectId :: string
  t_title :: string
  t_description :: string
  t_status :: Status
  t_priority :: Priority
  t_dueDate :: string
  t_createdAt :: string

record Project =
  p_id :: string
  p_name :: string
  p_description :: string
  p_color :: string
  p_createdAt :: string

text \<open>
  An element of the array kept under the key \<open>promanage-users\<close>. \<open>register\<close> writes
  \<open>{ id, name, email, password }\<close>; \<open>login\<close> reads the elements at the type
  \<open>{ email: string; password: string; name: string; id?: string }\<close>, so the id may be
  missing.
\<close>

record Account =
  a_id :: "string option"
  a_name :: string
  a_email :: string
  a_password :: string

text \<open>The data part of \<open>AppState\<close> (lines 31-34).\<close>

record AppState =
  user :: "User option"
  projects :: "Project list"
  tasks :: "Task list"
  theme :: Theme

text \<open>\<open>Omit<Project, 'id' | 'createdAt'>\<close> and \<open>Omit<Task, 'id' | 'createdAt'>\<close>.\<close>

record ProjectFields =
  np_name :: string
  np_description :: string
  np_color :: string

record TaskFields =
  nt_projectId :: string
  nt_title :: string
  nt_description :: string
  nt_status :: Status
  nt_priority :: Priority
  nt_dueDate :: string

text \<open>
  \<open>Partial<Project>\<close> and \<open>Partial<Task>\<close>: every property may be absent (\<open>None\<close>) or
  present with a value of the property's type.
\<close>

record ProjectPartial =
  pp_id :: "string option"
  pp_name :: "string option"
  pp_description :: "string option"
  pp_color :: "string option"
  pp_createdAt :: "string option"

record TaskPartial =
  tp_id :: "string option"
  tp_projectId :: "string option"
  tp_title :: "string option"
  tp_description :: "string option"
  tp_status :: "Status option"
  tp_priority :: "Priority option"
  tp_dueDate :: "string option"
  tp_createdAt :: "string option"

text \<open>
  The record stored under the key \<open>promanage-storage\<close>: \<open>{ user, projects, tasks, theme }\<close>.
\<close>

record Snapshot =
  s_user :: "User option"
  s_projects :: "Project list"
  s_tasks :: "Task list"
  s_theme :: Theme

text \<open>
  Everything the store's operations read or write: the in-memory state of the store, the
  two items of \<open>localStorage\<close> (\<open>None\<close> when the key is absent; the serialized text is
  represented by the value it parses to) and whether the class \<open>dark\<close> is on
  \<open>document.documentElement\<close>. Writes to \<open>localStorage\<close> are taken to succeed.
\<close>

record World =
  state :: AppState
  users_item :: "Account list option"
  storage_item :: "Snapshot option"
  dark_class :: bool


section \<open>Persistence\<close>

definition snapshot_of :: "AppState \<Rightarrow> Snapshot" where
  "snapshot_of s =
     \<lparr>s_user = user s, s_projects = projects s, s_tasks = tasks s, s_theme = theme s\<rparr>"

text \<open>
  Modelled from the spec: the write of the \<open>persist\<close> middleware of zustand, which is not
  under src/ (only its call at lines 59 and 126-134 is). It stores the entire application
  state (session user, projects, tasks, theme) as one snapshot, overwriting any prior one.
\<close>

definition persist_snapshot :: "World \<Rightarrow> World" where
  "persist_snapshot w = w\<lparr>storage_item := Some (snapshot_of (state w))\<rparr>"

text \<open>
  Modelled from the spec: the \<open>set\<close> that zustand and its \<open>persist\<close> middleware hand to
  the store (line 60), not under src/. The update is applied to the in-memory state and,
  within the same step, the whole state is persisted. \<open>set({ user: x })\<close> of the source is
  \<open>set_state (\<lambda>s. s\<lparr>user := x\<rparr>)\<close>, and \<open>set((state) => ({ ... }))\<close> likewise.
\<close>

definition set_state :: "(AppState \<Rightarrow> AppState) \<Rightarrow> World \<Rightarrow> World" where
  "set_state f w = persist_snapshot (w\<lparr>state := f (state w)\<rparr>)"

text \<open>The initial state of the store (lines 61-64).\<close>

definition initial_state :: AppState where
  "initial_state = \<lparr>user = None, projects = [], tasks = [], theme = light\<rparr>"

text \<open>
  \<open>onRehydrateStorage\<close> (lines 128-132): after loading, the class \<open>dark\<close> is added when
  the theme of the state handed over is dark; \<open>state?.theme\<close> allows for an undefined
  state (\<open>None\<close>).
\<close>

definition onRehydrateStorage :: "AppState option \<Rightarrow> World \<Rightarrow> World" where
  "onRehydrateStorage st w =
     (case st of
        None \<Rightarrow> w
      | Some s \<Rightarrow> if theme s = dark then w\<lparr>dark_class := True\<rparr> else w)"

text \<open>
  Modelled from the spec: process start, not under src/ (the page load and the
  middleware's hydration). The in-memory state starts as the initial state, the document
  has no class yet, and \<open>localStorage\<close> is what the last run left.
\<close>

definition process_start :: "World \<Rightarrow> World" where
  "process_start w =
     \<lparr>state = initial_state, users_item = users_item w,
      storage_item = storage_item w, dark_class = False\<rparr>"

text \<open>
  Modelled from the spec: loading the last snapshot back in full, not under src/ (the
  hydration of the \<open>persist\<close> middleware). With no snapshot the state stays as it is.
\<close>

definition load_snapshot :: "World \<Rightarrow> World" where
  "load_snapshot w =
     (case storage_item w of
        None \<Rightarrow> onRehydrateStorage (Some (state w)) w
      | Some sn \<Rightarrow>
          (let s = (state w)\<lparr>user := s_user sn, projects := s_projects sn,
                              tasks := s_tasks sn, theme := s_theme sn\<rparr>
           in onRehydrateStorage (Some s) (w\<lparr>state := s\<rparr>)))"


section \<open>The operations of the store (lines 56-124)\<close>

text \<open>
  \<open>generateId()\<close> (line 56) and \<open>new Date().toISOString()\<close> are not functions of the
  state: the string each call returns is an argument (\<open>gid\<close>, \<open>now\<close>) of the operation
  that makes the call.
\<close>

text \<open>\<open>JSON.parse(localStorage.getItem('promanage-users') || '[]')\<close> (lines 67, 77).\<close>

definition storedUsers :: "World \<Rightarrow> Account list" where
  "storedUsers w = (case users_item w of None \<Rightarrow> [] | Some us \<Rightarrow> us)"

text \<open>
  \<open>user.id || generateId()\<close> (line 70): a missing id and the empty string are falsy.
\<close>

definition id_or_generated :: "string option \<Rightarrow> string \<Rightarrow> string" where
  "id_or_generated i gid =
     (case i of None \<Rightarrow> gid | Some v \<Rightarrow> if v = [] then gid else v)"

definition login :: "string \<Rightarrow> string \<Rightarrow> string \<Rightarrow> World \<Rightarrow> bool \<times> World" where
  "login email password gid w =
     (case find (\<lambda>u. a_email u = email \<and> a_password u = password) (storedUsers w) of
        Some u \<Rightarrow>
          (True,
           set_state (\<lambda>s. s\<lparr>user := Some \<lparr>u_id = id_or_generated (a_id u) gid,
                                           u_name = a_name u, u_email = a_email u,
                                           u_avatar = None\<rparr>\<rparr>) w)
      | None \<Rightarrow> (False, w))"

definition register :: "string \<Rightarrow> string \<Rightarrow> string \<Rightarrow> string \<Rightarrow> World \<Rightarrow> bool \<times> World" where
  "register name email password gid w =
     (case find (\<lambda>u. a_email u = email) (storedUsers w) of
        Some u \<Rightarrow> (False, w)
      | None \<Rightarrow>
          (let newUser = \<lparr>a_id = Some gid, a_name = name, a_email = email,
                          a_password = password\<rparr>;
               w1 = w\<lparr>users_item := Some (storedUsers w @ [newUser])\<rparr>
           in (True,
               set_state (\<lambda>s. s\<lparr>user := Some \<lparr>u_id = gid, u_name = name, u_email = email,
                                               u_avatar = None\<rparr>\<rparr>) w1)))"

definition logout :: "World \<Rightarrow> World" where
  "logout w = set_state (\<lambda>s. s\<lparr>user := None\<rparr>) w"

definition addProject :: "ProjectFields \<Rightarrow> string \<Rightarrow> string \<Rightarrow> World \<Rightarrow> World" where
  "addProject project gid now w =
     set_state (\<lambda>s. s\<lparr>projects := projects s @
       [\<lparr>p_id = gid, p_name = np_name project, p_description = np_description project,
         p_color = np_color project, p_createdAt = now\<rparr>]\<rparr>) w"

text \<open>\<open>{ ...p, ...project }\<close> (line 95): the properties present in the patch win.\<close>

definition spread_project :: "Project \<Rightarrow> ProjectPartial \<Rightarrow> Project" where
  "spread_project p q =
     \<lparr>p_id = (case pp_id q of None \<Rightarrow> p_id p | Some v \<Rightarrow> v),
      p_name = (case pp_name q of None \<Rightarrow> p_name p | Some v \<Rightarrow> v),
      p_description = (case pp_description q of None \<Rightarrow> p_description p | Some v \<Rightarrow> v),
      p_color = (case pp_color q of None \<Rightarrow> p_color p | Some v \<Rightarrow> v),
      p_createdAt = (case pp_createdAt q of None \<Rightarrow> p_createdAt p | Some v \<Rightarrow> v)\<rparr>"

definition updateProject :: "string \<Rightarrow> ProjectPartial \<Rightarrow> World \<Rightarrow> World" where
  "updateProject ident project w =
     set_state (\<lambda>s. s\<lparr>projects :=
       map (\<lambda>p. if p_id p = ident then spread_project p project else p) (projects s)\<rparr>) w"

definition deleteProject :: "string \<Rightarrow> World \<Rightarrow> World" where
  "deleteProject ident w =
     set_state (\<lambda>s. s\<lparr>projects := filter (\<lambda>p. p_id p \<noteq> ident) (projects s),
                       tasks := filter (\<lambda>t. t_projectId t \<noteq> ident) (tasks s)\<rparr>) w"

definition addTask :: "TaskFields \<Rightarrow> string \<Rightarrow> string \<Rightarrow> World \<Rightarrow> World" where
  "addTask task gid now w =
     set_state (\<lambda>s. s\<lparr>tasks := tasks s @
       [\<lparr>t_id = gid, t_projectId = nt_projectId task, t_title = nt_title task,
         t_description = nt_description task, t_status = nt_status task,
         t_priority = nt_priority task, t_dueDate = nt_dueDate task,
         t_createdAt = now\<rparr>]\<rparr>) w"

text \<open>\<open>{ ...t, ...task }\<close> (line 108).\<close>

definition spread_task :: "Task \<Rightarrow> TaskPartial \<Rightarrow> Task" where
  "spread_task t q =
     \<lparr>t_id = (case tp_id q of None \<Rightarrow> t_id t | Some v \<Rightarrow> v),
      t_projectId = (case tp_projectId q of None \<Rightarrow> t_projectId t | Some v \<Rightarrow> v),
      t_title = (case tp_title q of None \<Rightarrow> t_title t | Some v \<Rightarrow> v),
      t_description = (case tp_description q of None \<Rightarrow> t_description t | Some v \<Rightarrow> v),
      t_status = (case tp_status q of None \<Rightarrow> t_status t | Some v \<Rightarrow> v),
      t_priority = (case tp_priority q of None \<Rightarrow> t_priority t | Some v \<Rightarrow> v),
      t_dueDate = (case tp_dueDate q of None \<Rightarrow> t_dueDate t | Some v \<Rightarrow> v),
      t_createdAt = (case tp_createdAt q of None \<Rightarrow> t_createdAt t | Some v \<Rightarrow> v)\<rparr>"

definition updateTask :: "string \<Rightarrow> TaskPartial \<Rightarrow> World \<Rightarrow> World" where
  "updateTask ident task w =
     set_state (\<lambda>s. s\<lparr>tasks :=
       map (\<lambda>t. if t_id t = ident then spread_task t task else t) (tasks s)\<rparr>) w"

definition deleteTask :: "string \<Rightarrow> World \<Rightarrow> World" where
  "deleteTask ident w =
     set_state (\<lambda>s. s\<lparr>tasks := filter (\<lambda>t. t_id t \<noteq> ident) (tasks s)\<rparr>) w"

text \<open>
  \<open>classList.toggle('dark', force)\<close> puts the class on when \<open>force\<close> is true and takes it
  off otherwise (lines 117, 122).
\<close>

definition toggleTheme :: "World \<Rightarrow> World" where
  "toggleTheme w =
     (let newTheme = (if theme (state w) = light then dark else light)
      in set_state (\<lambda>s. s\<lparr>theme := newTheme\<rparr>) (w\<lparr>dark_class := (newTheme = dark)\<rparr>))"

definition setTheme :: "Theme \<Rightarrow> World \<Rightarrow> World" where
  "setTheme t w = set_state (\<lambda>s. s\<lparr>theme := t\<rparr>) (w\<lparr>dark_class := (t = dark)\<rparr>)"

text \<open>The patch \<open>{ status: s }\<close> of \<open>updateTask(id, { status })\<close>.\<close>

definition status_only :: "Status \<Rightarrow> TaskPartial" where
  "status_only s =
     \<lparr>tp_id = None, tp_projectId = None, tp_title = None, tp_description = None,
      tp_status = Some s, tp_priority = None, tp_dueDate = None, tp_createdAt = None\<rparr>"


section \<open>Concrete inputs used below\<close>

definition alice :: Account where
  "alice = \<lparr>a_id = Some ''u1'', a_name = ''Alice'', a_email = ''alice@example.com'',
            a_password = ''secret1''\<rparr>"

definition task1 :: Task where
  "task1 = \<lparr>t_id = ''t1'', t_projectId = ''p1'', t_title = ''Write report'',
            t_description = ''Quarterly'', t_status = todo, t_priority = high,
            t_dueDate = ''2024-05-01'', t_createdAt = ''2024-04-01T10:00:00.000Z''\<rparr>"

definition task2 :: Task where
  "task2 = \<lparr>t_id = ''t2'', t_projectId = ''p2'', t_title = ''Review'',
            t_description = '''', t_status = in_progress, t_priority = low,
            t_dueDate = ''2024-06-01'', t_createdAt = ''2024-04-02T10:00:00.000Z''\<rparr>"

definition project1 :: Project where
  "project1 = \<lparr>p_id = ''p1'', p_name = ''Website'', p_description = ''Relaunch'',
               p_color = ''#ff0000'', p_createdAt = ''2024-03-01T09:00:00.000Z''\<rparr>"

definition world0 :: World where
  "world0 = \<lparr>state = initial_state, users_item = None, storage_item = None,
             dark_class = False\<rparr>"

definition world1 :: World where
  "world1 = \<lparr>state = \<lparr>user = None, projects = [project1], tasks = [task1, task2],
                       theme = light\<rparr>,
             users_item = Some [alice], storage_item = None, dark_class = False\<rparr>"

definition world2 :: World where
  "world2 = \<lparr>state = \<lparr>user = Some \<lparr>u_id = ''u9'', u_name = ''Carol'',
                                   u_email = ''carol@example.com'', u_avatar = None\<rparr>,
                       projects = [project1], tasks = [task1], theme = dark\<rparr>,
             users_item = Some [alice], storage_item = None, dark_class = True\<rparr>"

definition bob :: Account where
  "bob = \<lparr>a_id = Some [], a_name = ''Bob'', a_email = ''bob@example.com'',
          a_password = ''hunter22''\<rparr>"

definition world_bob :: World where
  "world_bob = \<lparr>state = initial_state, users_item = Some [bob], storage_item = None,
                dark_class = False\<rparr>"

definition task1_fields :: TaskFields where
  "task1_fields = \<lparr>nt_projectId = ''p1'', nt_title = ''Write report'',
                   nt_description = ''Quarterly'', nt_status = todo, nt_priority = high,
                   nt_dueDate = ''2024-05-01''\<rparr>"

definition project1_fields :: ProjectFields where
  "project1_fields = \<lparr>np_name = ''Website'', np_description = ''Relaunch'',
                      np_color = ''#ff0000''\<rparr>"

text \<open>A store with no project and one task that names the project id \<open>p1\<close>.\<close>

definition world_orphan :: World where
  "world_orphan = addTask task1_fields ''t1'' ''2024-04-01T10:00:00.000Z'' world0"


section \<open>What an update leaves behind\<close>

lemma state_set_state: "state (set_state f w) = f (state w)"
  by (simp add: set_state_def persist_snapshot_def)

lemma users_item_set_state: "users_item (set_state f w) = users_item w"
  by (simp add: set_state_def persist_snapshot_def)

lemma dark_class_set_state: "dark_class (set_state f w) = dark_class w"
  by (simp add: set_state_def persist_snapshot_def)

lemma storage_item_set_state:
  "storage_item (set_state f w) = Some (snapshot_of (f (state w)))"
  by (simp add: set_state_def persist_snapshot_def)


section \<open>Theme\<close>

text \<open>
  C9: \<open>toggleTheme\<close> maps light to dark and dark to light, applying it twice restores the
  theme, and \<open>setTheme t\<close> sets the theme to exactly \<open>t\<close>.
\<close>

theorem theme_toggle_involution:
  "theme (state (toggleTheme w)) = (case theme (state w) of light \<Rightarrow> dark | dark \<Rightarrow> light)
   \<and> theme (state (toggleTheme (toggleTheme w))) = theme (state w)
   \<and> theme (state (setTheme t w)) = t"
  by (cases "theme (state w)") (simp_all add: toggleTheme_def setTheme_def state_set_state Let_def)

theorem theme_toggle_involution_witness:
  "theme (state (toggleTheme world1)) = dark
   \<and> theme (state (toggleTheme world2)) = light
   \<and> theme (state (toggleTheme (toggleTheme world2))) = dark
   \<and> theme (state (setTheme dark world1)) = dark"
  using theme_toggle_involution [of world1 dark] theme_toggle_involution [of world2 dark]
  by (simp add: world1_def world2_def)


section \<open>Login\<close>

lemma login_found:
  "find (\<lambda>u. a_email u = email \<and> a_password u = password) (storedUsers w) = Some a \<Longrightarrow>
   login email password gid w =
     (True, set_state (\<lambda>s. s\<lparr>user := Some \<lparr>u_id = id_or_generated (a_id a) gid,
                                              u_name = a_name a, u_email = a_email a,
                                              u_avatar = None\<rparr>\<rparr>) w)"
  by (simp add: login_def)

lemma login_not_found:
  "find (\<lambda>u. a_email u = email \<and> a_password u = password) (storedUsers w) = None \<Longrightarrow>
   login email password gid w = (False, w)"
  by (simp add: login_def)

lemma no_match_find_None:
  "\<forall>a\<in>set us. \<not> (a_email a = email \<and> a_password a = password) \<Longrightarrow>
   find (\<lambda>u. a_email u = email \<and> a_password u = password) us = None"
  by (simp add: find_None_iff)

text \<open>
  C1 as stated fails: an Account whose id is the empty string (or is missing) matches, the
  login succeeds, and the session user's id is the generated one, not the Account's.
\<close>

theorem login_account_id_counterexample:
  "bob \<in> set (storedUsers world_bob)
   \<and> a_email bob = ''bob@example.com'' \<and> a_password bob = ''hunter22''
   \<and> a_id bob = Some []
   \<and> fst (login ''bob@example.com'' ''hunter22'' ''k3j9x2abc'' world_bob)
   \<and> user (state (snd (login ''bob@example.com'' ''hunter22'' ''k3j9x2abc'' world_bob))) =
       Some \<lparr>u_id = ''k3j9x2abc'', u_name = ''Bob'', u_email = ''bob@example.com'',
              u_avatar = None\<rparr>
   \<and> map_option u_id
         (user (state (snd (login ''bob@example.com'' ''hunter22'' ''k3j9x2abc'' world_bob))))
       \<noteq> a_id bob"
  by (simp add: login_def world_bob_def storedUsers_def bob_def state_set_state
      id_or_generated_def)

text \<open>
  C1, amended: when some Account of the credential list matches both email and password,
  \<open>login\<close> returns true and the session user gets the name and email of the first
  matching Account, and its id when that id is present and not empty, the generated id
  otherwise; projects, tasks and theme stay. When no Account matches both, it returns false.
\<close>

theorem login_first_match:
  "((\<exists>a\<in>set (storedUsers w). a_email a = email \<and> a_password a = password) \<longrightarrow>
      (\<exists>n<length (storedUsers w).
         a_email (storedUsers w ! n) = email \<and> a_password (storedUsers w ! n) = password
         \<and> (\<forall>j<n. \<not> (a_email (storedUsers w ! j) = email
                         \<and> a_password (storedUsers w ! j) = password))
         \<and> fst (login email password gid w)
         \<and> user (state (snd (login email password gid w))) =
             Some \<lparr>u_id = (case a_id (storedUsers w ! n) of
                                None \<Rightarrow> gid
                              | Some v \<Rightarrow> if v = [] then gid else v),
                    u_name = a_name (storedUsers w ! n), u_email = email, u_avatar = None\<rparr>
         \<and> projects (state (snd (login email password gid w))) = projects (state w)
         \<and> tasks (state (snd (login email password gid w))) = tasks (state w)
         \<and> theme (state (snd (login email password gid w))) = theme (state w)))
   \<and> ((\<forall>a\<in>set (storedUsers w). \<not> (a_email a = email \<and> a_password a = password)) \<longrightarrow>
      \<not> fst (login email password gid w))"
proof (intro conjI impI)
  assume "\<exists>a\<in>set (storedUsers w). a_email a = email \<and> a_password a = password"
  then have "find (\<lambda>u. a_email u = email \<and> a_password u = password) (storedUsers w) \<noteq> None"
    by (auto simp: find_None_iff)
  then obtain a where
    fa: "find (\<lambda>u. a_email u = email \<and> a_password u = password) (storedUsers w) = Some a"
    by auto
  then obtain n where n: "n < length (storedUsers w)"
    "a_email (storedUsers w ! n) = email \<and> a_password (storedUsers w ! n) = password"
    "a = storedUsers w ! n"
    "\<forall>j<n. \<not> (a_email (storedUsers w ! j) = email \<and> a_password (storedUsers w ! j) = password)"
    unfolding find_Some_iff by blast
  show "\<exists>n<length (storedUsers w).
         a_email (storedUsers w ! n) = email \<and> a_password (storedUsers w ! n) = password
         \<and> (\<forall>j<n. \<not> (a_email (storedUsers w ! j) = email
                         \<and> a_password (storedUsers w ! j) = password))
         \<and> fst (login email password gid w)
         \<and> user (state (snd (login email password gid w))) =
             Some \<lparr>u_id = (case a_id (storedUsers w ! n) of
                                None \<Rightarrow> gid
                              | Some v \<Rightarrow> if v = [] then gid else v),
                    u_name = a_name (storedUsers w ! n), u_email = email, u_avatar = None\<rparr>
         \<and> projects (state (snd (login email password gid w))) = projects (state w)
         \<and> tasks (state (snd (login email password gid w))) = tasks (state w)
         \<and> theme (state (snd (login email password gid w))) = theme (state w)"
    using n by (intro exI [of _ n])
      (simp add: login_found [OF fa] state_set_state id_or_generated_def)
next
  assume "\<forall>a\<in>set (storedUsers w). \<not> (a_email a = email \<and> a_password a = password)"
  then show "\<not> fst (login email password gid w)"
    by (simp add: login_not_found [OF no_match_find_None])
qed

theorem login_first_match_witness:
  "fst (login ''alice@example.com'' ''secret1'' ''k3j9x2abc'' world1)
   \<and> user (state (snd (login ''alice@example.com'' ''secret1'' ''k3j9x2abc'' world1))) =
       Some \<lparr>u_id = ''u1'', u_name = ''Alice'', u_email = ''alice@example.com'',
              u_avatar = None\<rparr>
   \<and> \<not> fst (login ''alice@example.com'' ''wrong'' ''k3j9x2abc'' world1)"
  using login_first_match [of world1 "''alice@example.com''" "''secret1''" "''k3j9x2abc''"]
    login_first_match [of world1 "''alice@example.com''" "''wrong''" "''k3j9x2abc''"]
  by (simp add: world1_def storedUsers_def alice_def)

text \<open>
  C10: when no Account matches both email and password, \<open>login\<close> returns false and
  leaves everything as it was: session user, projects, tasks, theme, and also both items
  of the local storage and the document's class.
\<close>

theorem login_failure_atomic:
  "\<forall>a\<in>set (storedUsers w). \<not> (a_email a = email \<and> a_password a = password) \<Longrightarrow>
   login email password gid w = (False, w)"
  by (rule login_not_found [OF no_match_find_None])

theorem login_failure_atomic_witness:
  "login ''alice@example.com'' ''wrong'' ''k3j9x2abc'' world2 = (False, world2)
   \<and> user (state world2) = Some \<lparr>u_id = ''u9'', u_name = ''Carol'',
                                   u_email = ''carol@example.com'', u_avatar = None\<rparr>"
  using login_failure_atomic [of world2 "''alice@example.com''" "''wrong''" "''k3j9x2abc''"]
  by (simp add: world2_def storedUsers_def alice_def)


section \<open>Register\<close>

lemma register_found:
  "find (\<lambda>u. a_email u = email) (storedUsers w) = Some a \<Longrightarrow>
   register name email password gid w = (False, w)"
  by (simp add: register_def)

lemma register_not_found:
  "find (\<lambda>u. a_email u = email) (storedUsers w) = None \<Longrightarrow>
   register name email password gid w =
     (True,
      set_state (\<lambda>s. s\<lparr>user := Some \<lparr>u_id = gid, u_name = name, u_email = email,
                                      u_avatar = None\<rparr>\<rparr>)
        (w\<lparr>users_item := Some (storedUsers w @
           [\<lparr>a_id = Some gid, a_name = name, a_email = email, a_password = password\<rparr>])\<rparr>))"
  by (simp add: register_def)

lemma storedUsers_set_state: "storedUsers (set_state f w) = storedUsers w"
  by (simp add: storedUsers_def users_item_set_state)

lemma storedUsers_users_item: "storedUsers (w\<lparr>users_item := Some us\<rparr>) = us"
  by (simp add: storedUsers_def)

text \<open>
  C2: when the credential list already holds an Account with the given email,
  \<open>register\<close> returns false and changes nothing (credential list, session user and all
  the rest). When no Account has that email, it returns true, the credential list is the
  old one followed by exactly one new Account carrying the generated id and the given
  name, email and password, and the session user is that Account's id, name and email.
\<close>

theorem register_duplicate_or_append:
  "((\<exists>a\<in>set (storedUsers w). a_email a = email) \<longrightarrow>
      register name email password gid w = (False, w))
   \<and> ((\<forall>a\<in>set (storedUsers w). a_email a \<noteq> email) \<longrightarrow>
      fst (register name email password gid w)
      \<and> storedUsers (snd (register name email password gid w)) =
          storedUsers w @
            [\<lparr>a_id = Some gid, a_name = name, a_email = email, a_password = password\<rparr>]
      \<and> user (state (snd (register name email password gid w))) =
          Some \<lparr>u_id = gid, u_name = name, u_email = email, u_avatar = None\<rparr>
      \<and> projects (state (snd (register name email password gid w))) = projects (state w)
      \<and> tasks (state (snd (register name email password gid w))) = tasks (state w)
      \<and> theme (state (snd (register name email password gid w))) = theme (state w))"
proof (intro conjI impI)
  assume "\<exists>a\<in>set (storedUsers w). a_email a = email"
  then have "find (\<lambda>u. a_email u = email) (storedUsers w) \<noteq> None"
    by (auto simp: find_None_iff)
  then obtain a where "find (\<lambda>u. a_email u = email) (storedUsers w) = Some a"
    by auto
  then show "register name email password gid w = (False, w)"
    by (rule register_found)
next
  assume "\<forall>a\<in>set (storedUsers w). a_email a \<noteq> email"
  then have none: "find (\<lambda>u. a_email u = email) (storedUsers w) = None"
    by (simp add: find_None_iff)
  note r = register_not_found [OF none, of name password gid]
  show "fst (register name email password gid w)"
    by (simp add: r)
  show "storedUsers (snd (register name email password gid w)) =
          storedUsers w @
            [\<lparr>a_id = Some gid, a_name = name, a_email = email, a_password = password\<rparr>]"
    by (simp add: r storedUsers_set_state storedUsers_users_item)
  show "user (state (snd (register name email password gid w))) =
          Some \<lparr>u_id = gid, u_name = name, u_email = email, u_avatar = None\<rparr>"
    by (simp add: r state_set_state)
  show "projects (state (snd (register name email password gid w))) = projects (state w)"
    by (simp add: r state_set_state)
  show "tasks (state (snd (register name email password gid w))) = tasks (state w)"
    by (simp add: r state_set_state)
  show "theme (state (snd (register name email password gid w))) = theme (state w)"
    by (simp add: r state_set_state)
qed

theorem register_duplicate_or_append_witness:
  "register ''Mallory'' ''alice@example.com'' ''other99'' ''zz81k0q3f'' world2 = (False, world2)
   \<and> storedUsers world2 = [alice]
   \<and> fst (register ''Bob'' ''bob@example.com'' ''hunter22'' ''zz81k0q3f'' world2)
   \<and> storedUsers (snd (register ''Bob'' ''bob@example.com'' ''hunter22'' ''zz81k0q3f'' world2)) =
       [alice, \<lparr>a_id = Some ''zz81k0q3f'', a_name = ''Bob'', a_email = ''bob@example.com'',
                 a_password = ''hunter22''\<rparr>]
   \<and> user (state (snd (register ''Bob'' ''bob@example.com'' ''hunter22'' ''zz81k0q3f'' world2))) =
       Some \<lparr>u_id = ''zz81k0q3f'', u_name = ''Bob'', u_email = ''bob@example.com'',
              u_avatar = None\<rparr>"
  using register_duplicate_or_append
      [of world2 "''alice@example.com''" "''Mallory''" "''other99''" "''zz81k0q3f''"]
    register_duplicate_or_append
      [of world2 "''bob@example.com''" "''Bob''" "''hunter22''" "''zz81k0q3f''"]
  by (simp add: world2_def storedUsers_def alice_def)


section \<open>Projects and tasks\<close>

text \<open>
  C3: \<open>deleteProject\<close> keeps exactly the Projects whose id differs and exactly the Tasks
  whose projectId differs, unchanged and in their order; so no Project with that id and
  no Task with that projectId is left. Session user and theme stay.
\<close>

theorem deleteProject_cascade:
  "projects (state (deleteProject i w)) = filter (\<lambda>p. p_id p \<noteq> i) (projects (state w))
   \<and> tasks (state (deleteProject i w)) = filter (\<lambda>t. t_projectId t \<noteq> i) (tasks (state w))
   \<and> i \<notin> p_id ` set (projects (state (deleteProject i w)))
   \<and> i \<notin> t_projectId ` set (tasks (state (deleteProject i w)))
   \<and> set (tasks (state (deleteProject i w))) =
       {t. t \<in> set (tasks (state w)) \<and> t_projectId t \<noteq> i}
   \<and> user (state (deleteProject i w)) = user (state w)
   \<and> theme (state (deleteProject i w)) = theme (state w)"
  by (auto simp: deleteProject_def state_set_state)

theorem deleteProject_cascade_witness:
  "state (deleteProject ''p1''
     (addTask task1_fields ''t1'' ''2024-04-01T10:00:00.000Z''
       (addProject project1_fields ''p1'' ''2024-03-01T09:00:00.000Z'' world0))) =
   initial_state
   \<and> state (deleteProject ''p1'' world1) = (state world1)\<lparr>projects := [], tasks := [task2]\<rparr>"
  using deleteProject_cascade [of "''p1''"
      "addTask task1_fields ''t1'' ''2024-04-01T10:00:00.000Z''
        (addProject project1_fields ''p1'' ''2024-03-01T09:00:00.000Z'' world0)"]
    deleteProject_cascade [of "''p1''" world1]
  by (simp add: deleteProject_def addTask_def addProject_def state_set_state world0_def
      world1_def initial_state_def task1_fields_def project1_fields_def project1_def
      task1_def task2_def)



text \<open>
  C8: \<open>addProject\<close> and \<open>addTask\<close> put exactly one new entity at the end of their
  collection: the supplied fields, the generated id, and the current time as createdAt.
  The entities already there stay in place and in order, and nothing else changes.
\<close>

theorem add_appends_one:
  "projects (state (addProject pf gid now w)) =
     projects (state w) @
       [\<lparr>p_id = gid, p_name = np_name pf, p_description = np_description pf,
         p_color = np_color pf, p_createdAt = now\<rparr>]
   \<and> tasks (state (addProject pf gid now w)) = tasks (state w)
   \<and> user (state (addProject pf gid now w)) = user (state w)
   \<and> theme (state (addProject pf gid now w)) = theme (state w)
   \<and> tasks (state (addTask tf gid now w)) =
     tasks (state w) @
       [\<lparr>t_id = gid, t_projectId = nt_projectId tf, t_title = nt_title tf,
         t_description = nt_description tf, t_status = nt_status tf,
         t_priority = nt_priority tf, t_dueDate = nt_dueDate tf, t_createdAt = now\<rparr>]
   \<and> projects (state (addTask tf gid now w)) = projects (state w)
   \<and> user (state (addTask tf gid now w)) = user (state w)
   \<and> theme (state (addTask tf gid now w)) = theme (state w)"
  by (simp add: addProject_def addTask_def state_set_state)

theorem add_appends_one_witness:
  "projects (state (addProject project1_fields ''p1'' ''2024-03-01T09:00:00.000Z'' world0)) =
     [project1]
   \<and> tasks (state (addTask task1_fields ''t1'' ''2024-04-01T10:00:00.000Z'' world1)) =
     [task1, task2, task1]"
  using add_appends_one [of project1_fields "''p1''" "''2024-03-01T09:00:00.000Z''" world0]
    add_appends_one [of _ "''t1''" "''2024-04-01T10:00:00.000Z''" world1 task1_fields]
  by (simp add: world0_def world1_def initial_state_def project1_fields_def project1_def
      task1_fields_def task1_def)


text \<open>
  C5 as stated fails for \<open>deleteProject\<close>: with no Project of id \<open>p1\<close> in the project
  collection but a Task that names \<open>p1\<close> as its projectId, \<open>deleteProject\<close> removes that
  Task.
\<close>

theorem deleteProject_absent_id_counterexample:
  "''p1'' \<notin> p_id ` set (projects (state world_orphan))
   \<and> tasks (state world_orphan) = [task1]
   \<and> tasks (state (deleteProject ''p1'' world_orphan)) = []
   \<and> tasks (state (deleteProject ''p1'' world_orphan)) \<noteq> tasks (state world_orphan)"
  by (simp add: world_orphan_def deleteProject_def addTask_def state_set_state world0_def
      initial_state_def task1_fields_def task1_def)

lemma map_absent_id: "i \<notin> k ` set xs \<Longrightarrow> map (\<lambda>x. if k x = i then g x else x) xs = xs"
  by (induction xs) auto

lemma filter_absent_id: "i \<notin> k ` set xs \<Longrightarrow> filter (\<lambda>x. k x \<noteq> i) xs = xs"
  by (induction xs) auto

text \<open>
  C5, amended: for an id that no Project has, \<open>updateProject\<close> leaves the state as it
  was, and \<open>deleteProject\<close> leaves the project collection as it was and removes from
  the task collection exactly the Tasks whose projectId is that id (so it leaves the whole
  state as it was when no Task names the id either). For an id that no Task has,
  \<open>updateTask\<close> and \<open>deleteTask\<close> leave the state as it was. The operations have no
  error outcome: each returns the next world.
\<close>

theorem absent_id_noop:
  "(i \<notin> p_id ` set (projects (state w)) \<longrightarrow>
      state (updateProject i pq w) = state w
      \<and> projects (state (deleteProject i w)) = projects (state w)
      \<and> tasks (state (deleteProject i w)) =
          filter (\<lambda>t. t_projectId t \<noteq> i) (tasks (state w))
      \<and> (i \<notin> t_projectId ` set (tasks (state w)) \<longrightarrow> state (deleteProject i w) = state w))
   \<and> (i \<notin> t_id ` set (tasks (state w)) \<longrightarrow>
      state (updateTask i tq w) = state w \<and> state (deleteTask i w) = state w)"
proof (intro conjI impI)
  assume a: "i \<notin> p_id ` set (projects (state w))"
  show "state (updateProject i pq w) = state w"
    by (simp add: updateProject_def state_set_state map_absent_id [OF a])
  show "projects (state (deleteProject i w)) = projects (state w)"
    by (simp add: deleteProject_def state_set_state filter_absent_id [OF a])
  show "tasks (state (deleteProject i w)) = filter (\<lambda>t. t_projectId t \<noteq> i) (tasks (state w))"
    by (simp add: deleteProject_def state_set_state)
  assume b: "i \<notin> t_projectId ` set (tasks (state w))"
  show "state (deleteProject i w) = state w"
    by (simp add: deleteProject_def state_set_state filter_absent_id [OF a]
        filter_absent_id [OF b])
next
  assume c: "i \<notin> t_id ` set (tasks (state w))"
  show "state (updateTask i tq w) = state w"
    by (simp add: updateTask_def state_set_state map_absent_id [OF c])
  show "state (deleteTask i w) = state w"
    by (simp add: deleteTask_def state_set_state filter_absent_id [OF c])
qed

theorem absent_id_noop_witness:
  "state (updateProject ''nope'' \<lparr>pp_id = None, pp_name = Some ''Renamed'',
       pp_description = None, pp_color = None, pp_createdAt = None\<rparr> world1) = state world1
   \<and> state (deleteProject ''nope'' world1) = state world1
   \<and> state (updateTask ''nope'' (status_only completed) world1) = state world1
   \<and> state (deleteTask ''nope'' world1) = state world1"
  using absent_id_noop [of "''nope''" world1
      "\<lparr>pp_id = None, pp_name = Some ''Renamed'', pp_description = None, pp_color = None,
        pp_createdAt = None\<rparr>" "status_only completed"]
  by (simp add: world1_def project1_def task1_def task2_def)


section \<open>Persistence of the snapshot\<close>

text \<open>
  C6: persisting the snapshot of a state, starting the process anew and loading the
  snapshot back gives the same session user, projects, tasks and theme.
\<close>

theorem load_after_persist:
  "state (load_snapshot (process_start (persist_snapshot w))) = state w
   \<and> user (state (load_snapshot (process_start (persist_snapshot w)))) = user (state w)
   \<and> projects (state (load_snapshot (process_start (persist_snapshot w)))) = projects (state w)
   \<and> tasks (state (load_snapshot (process_start (persist_snapshot w)))) = tasks (state w)
   \<and> theme (state (load_snapshot (process_start (persist_snapshot w)))) = theme (state w)"
proof -
  have "state (load_snapshot (process_start (persist_snapshot w))) = state w"
    by (simp add: load_snapshot_def process_start_def persist_snapshot_def snapshot_of_def
        onRehydrateStorage_def initial_state_def Let_def)
  then show ?thesis by simp
qed

theorem load_after_persist_witness:
  "storage_item (persist_snapshot world2) =
     Some \<lparr>s_user = Some \<lparr>u_id = ''u9'', u_name = ''Carol'', u_email = ''carol@example.com'',
                            u_avatar = None\<rparr>,
            s_projects = [project1], s_tasks = [task1], s_theme = dark\<rparr>
   \<and> state (process_start (persist_snapshot world2)) = initial_state
   \<and> state (load_snapshot (process_start (persist_snapshot world2))) = state world2"
  using load_after_persist [of world2]
  by (simp add: persist_snapshot_def process_start_def snapshot_of_def world2_def)

lemma snapshot_after_set:
  "storage_item (set_state f w) = Some (snapshot_of (state (set_state f w)))"
  by (simp add: storage_item_set_state state_set_state)

lemma match_find_Some:
  "\<exists>a\<in>set us. P a \<Longrightarrow> \<exists>a. find P us = Some a"
  by (cases "find P us") (auto simp: find_None_iff)

text \<open>
  C7 as stated fails for \<open>login\<close>: on a store just started with nothing in the local
  storage, a login that finds no matching Account returns false without any update, and
  afterwards there is still no persisted snapshot, so the persisted snapshot is not the
  in-memory state.
\<close>

theorem failed_login_persists_nothing_counterexample:
  "load_snapshot (process_start world0) = world0
   \<and> login ''alice@example.com'' ''secret1'' ''k3j9x2abc'' world0 = (False, world0)
   \<and> storage_item (snd (login ''alice@example.com'' ''secret1'' ''k3j9x2abc'' world0)) = None
   \<and> storage_item (snd (login ''alice@example.com'' ''secret1'' ''k3j9x2abc'' world0)) \<noteq>
       Some (snapshot_of
         (state (snd (login ''alice@example.com'' ''secret1'' ''k3j9x2abc'' world0))))"
  by (simp add: login_def world0_def storedUsers_def load_snapshot_def process_start_def
      onRehydrateStorage_def initial_state_def)

text \<open>
  C7, amended: every operation that updates the store ends, within the same step, with the
  persisted snapshot equal to the snapshot of the whole in-memory state (session user,
  projects, tasks, theme), whatever was stored before: \<open>logout\<close>, \<open>addProject\<close>,
  \<open>updateProject\<close>, \<open>deleteProject\<close>, \<open>addTask\<close>, \<open>updateTask\<close>, \<open>deleteTask\<close>,
  \<open>toggleTheme\<close> and \<open>setTheme\<close> on every call, \<open>login\<close> when some Account matches both
  email and password, and \<open>register\<close> when no Account has the email. A \<open>login\<close> with no
  matching Account and a \<open>register\<close> with an email already there return false, update
  nothing and persist nothing: state and snapshot are as before.
\<close>

theorem every_update_persists:
  "((\<exists>a\<in>set (storedUsers w). a_email a = e1 \<and> a_password a = pw1) \<longrightarrow>
      fst (login e1 pw1 g1 w)
      \<and> storage_item (snd (login e1 pw1 g1 w)) =
          Some (snapshot_of (state (snd (login e1 pw1 g1 w)))))
   \<and> ((\<forall>a\<in>set (storedUsers w). \<not> (a_email a = e1 \<and> a_password a = pw1)) \<longrightarrow>
      login e1 pw1 g1 w = (False, w))
   \<and> ((\<forall>a\<in>set (storedUsers w). a_email a \<noteq> e2) \<longrightarrow>
      fst (register n2 e2 pw2 g2 w)
      \<and> storage_item (snd (register n2 e2 pw2 g2 w)) =
          Some (snapshot_of (state (snd (register n2 e2 pw2 g2 w)))))
   \<and> ((\<exists>a\<in>set (storedUsers w). a_email a = e2) \<longrightarrow>
      register n2 e2 pw2 g2 w = (False, w))
   \<and> storage_item (logout w) = Some (snapshot_of (state (logout w)))
   \<and> storage_item (addProject pf g3 now3 w) =
       Some (snapshot_of (state (addProject pf g3 now3 w)))
   \<and> storage_item (updateProject i4 pq w) = Some (snapshot_of (state (updateProject i4 pq w)))
   \<and> storage_item (deleteProject i5 w) = Some (snapshot_of (state (deleteProject i5 w)))
   \<and> storage_item (addTask tf g6 now6 w) = Some (snapshot_of (state (addTask tf g6 now6 w)))
   \<and> storage_item (updateTask i7 tq w) = Some (snapshot_of (state (updateTask i7 tq w)))
   \<and> storage_item (deleteTask i8 w) = Some (snapshot_of (state (deleteTask i8 w)))
   \<and> storage_item (toggleTheme w) = Some (snapshot_of (state (toggleTheme w)))
   \<and> storage_item (setTheme t9 w) = Some (snapshot_of (state (setTheme t9 w)))"
proof -
  have l1: "(\<exists>a\<in>set (storedUsers w). a_email a = e1 \<and> a_password a = pw1) \<longrightarrow>
      fst (login e1 pw1 g1 w)
      \<and> storage_item (snd (login e1 pw1 g1 w)) =
          Some (snapshot_of (state (snd (login e1 pw1 g1 w))))"
  proof
    assume "\<exists>a\<in>set (storedUsers w). a_email a = e1 \<and> a_password a = pw1"
    then obtain a where
      "find (\<lambda>u. a_email u = e1 \<and> a_password u = pw1) (storedUsers w) = Some a"
      using match_find_Some [of "storedUsers w" "\<lambda>u. a_email u = e1 \<and> a_password u = pw1"]
      by blast
    then show "fst (login e1 pw1 g1 w)
      \<and> storage_item (snd (login e1 pw1 g1 w)) =
          Some (snapshot_of (state (snd (login e1 pw1 g1 w))))"
      by (simp add: login_found snapshot_after_set)
  qed
  have l2: "(\<forall>a\<in>set (storedUsers w). \<not> (a_email a = e1 \<and> a_password a = pw1)) \<longrightarrow>
      login e1 pw1 g1 w = (False, w)"
    by (simp add: login_not_found [OF no_match_find_None])
  have r1: "(\<forall>a\<in>set (storedUsers w). a_email a \<noteq> e2) \<longrightarrow>
      fst (register n2 e2 pw2 g2 w)
      \<and> storage_item (snd (register n2 e2 pw2 g2 w)) =
          Some (snapshot_of (state (snd (register n2 e2 pw2 g2 w))))"
  proof
    assume "\<forall>a\<in>set (storedUsers w). a_email a \<noteq> e2"
    then have "find (\<lambda>u. a_email u = e2) (storedUsers w) = None"
      by (simp add: find_None_iff)
    then show "fst (register n2 e2 pw2 g2 w)
      \<and> storage_item (snd (register n2 e2 pw2 g2 w)) =
          Some (snapshot_of (state (snd (register n2 e2 pw2 g2 w))))"
      by (simp add: register_not_found snapshot_after_set)
  qed
  have r2: "(\<exists>a\<in>set (storedUsers w). a_email a = e2) \<longrightarrow>
      register n2 e2 pw2 g2 w = (False, w)"
  proof
    assume "\<exists>a\<in>set (storedUsers w). a_email a = e2"
    then obtain a where "find (\<lambda>u. a_email u = e2) (storedUsers w) = Some a"
      using match_find_Some [of "storedUsers w" "\<lambda>u. a_email u = e2"] by blast
    then show "register n2 e2 pw2 g2 w = (False, w)"
      by (rule register_found)
  qed
  have rest: "storage_item (logout w) = Some (snapshot_of (state (logout w)))"
    "storage_item (addProject pf g3 now3 w) =
       Some (snapshot_of (state (addProject pf g3 now3 w)))"
    "storage_item (updateProject i4 pq w) = Some (snapshot_of (state (updateProject i4 pq w)))"
    "storage_item (deleteProject i5 w) = Some (snapshot_of (state (deleteProject i5 w)))"
    "storage_item (addTask tf g6 now6 w) = Some (snapshot_of (state (addTask tf g6 now6 w)))"
    "storage_item (updateTask i7 tq w) = Some (snapshot_of (state (updateTask i7 tq w)))"
    "storage_item (deleteTask i8 w) = Some (snapshot_of (state (deleteTask i8 w)))"
    "storage_item (toggleTheme w) = Some (snapshot_of (state (toggleTheme w)))"
    "storage_item (setTheme t9 w) = Some (snapshot_of (state (setTheme t9 w)))"
    unfolding logout_def addProject_def updateProject_def deleteProject_def addTask_def
      updateTask_def deleteTask_def toggleTheme_def setTheme_def Let_def
    by (rule snapshot_after_set)+
  from l1 l2 r1 r2 rest show ?thesis by blast
qed

theorem every_update_persists_witness:
  "storage_item (snd (login ''alice@example.com'' ''secret1'' ''k3j9x2abc'' world1)) =
     Some \<lparr>s_user = Some \<lparr>u_id = ''u1'', u_name = ''Alice'', u_email = ''alice@example.com'',
                            u_avatar = None\<rparr>,
            s_projects = [project1], s_tasks = [task1, task2], s_theme = light\<rparr>
   \<and> login ''alice@example.com'' ''wrong'' ''k3j9x2abc'' world1 = (False, world1)
   \<and> storage_item (snd (register ''Bob'' ''bob@example.com'' ''hunter22'' ''zz81k0q3f'' world1)) =
     Some \<lparr>s_user = Some \<lparr>u_id = ''zz81k0q3f'', u_name = ''Bob'',
                            u_email = ''bob@example.com'', u_avatar = None\<rparr>,
            s_projects = [project1], s_tasks = [task1, task2], s_theme = light\<rparr>
   \<and> register ''Mallory'' ''alice@example.com'' ''other99'' ''zz81k0q3f'' world1 =
       (False, world1)"
proof -
  note ok = every_update_persists [of world1 "''alice@example.com''" "''secret1''"
      "''k3j9x2abc''" "''bob@example.com''" "''Bob''" "''hunter22''" "''zz81k0q3f''"]
  note ko = every_update_persists [of world1 "''alice@example.com''" "''wrong''"
      "''k3j9x2abc''" "''alice@example.com''" "''Mallory''" "''other99''" "''zz81k0q3f''"]
  have us: "storedUsers world1 = [alice]"
    by (simp add: world1_def storedUsers_def)
  have h1: "\<exists>a\<in>set (storedUsers world1).
      a_email a = ''alice@example.com'' \<and> a_password a = ''secret1''"
    by (simp add: us alice_def)
  have h2: "\<forall>a\<in>set (storedUsers world1).
      \<not> (a_email a = ''alice@example.com'' \<and> a_password a = ''wrong'')"
    by (simp add: us alice_def)
  have h3: "\<forall>a\<in>set (storedUsers world1). a_email a \<noteq> ''bob@example.com''"
    by (simp add: us alice_def)
  have h4: "\<exists>a\<in>set (storedUsers world1). a_email a = ''alice@example.com''"
    by (simp add: us alice_def)
  have s1: "state (snd (login ''alice@example.com'' ''secret1'' ''k3j9x2abc'' world1)) =
      \<lparr>user = Some \<lparr>u_id = ''u1'', u_name = ''Alice'', u_email = ''alice@example.com'',
                       u_avatar = None\<rparr>,
       projects = [project1], tasks = [task1, task2], theme = light\<rparr>"
    by (simp add: login_def world1_def storedUsers_def alice_def state_set_state
        id_or_generated_def)
  have s2: "state (snd (register ''Bob'' ''bob@example.com'' ''hunter22'' ''zz81k0q3f'' world1)) =
      \<lparr>user = Some \<lparr>u_id = ''zz81k0q3f'', u_name = ''Bob'', u_email = ''bob@example.com'',
                       u_avatar = None\<rparr>,
       projects = [project1], tasks = [task1, task2], theme = light\<rparr>"
    by (simp add: register_def world1_def storedUsers_def alice_def state_set_state)
  from ok [THEN conjunct1, THEN mp, OF h1] s1
  have a: "storage_item (snd (login ''alice@example.com'' ''secret1'' ''k3j9x2abc'' world1)) =
     Some \<lparr>s_user = Some \<lparr>u_id = ''u1'', u_name = ''Alice'', u_email = ''alice@example.com'',
                            u_avatar = None\<rparr>,
            s_projects = [project1], s_tasks = [task1, task2], s_theme = light\<rparr>"
    by (simp add: snapshot_of_def)
  from ko [THEN conjunct2, THEN conjunct1, THEN mp, OF h2]
  have b: "login ''alice@example.com'' ''wrong'' ''k3j9x2abc'' world1 = (False, world1)" .
  from ok [THEN conjunct2, THEN conjunct2, THEN conjunct1, THEN mp, OF h3] s2
  have c: "storage_item
      (snd (register ''Bob'' ''bob@example.com'' ''hunter22'' ''zz81k0q3f'' world1)) =
     Some \<lparr>s_user = Some \<lparr>u_id = ''zz81k0q3f'', u_name = ''Bob'',
                            u_email = ''bob@example.com'', u_avatar = None\<rparr>,
            s_projects = [project1], s_tasks = [task1, task2], s_theme = light\<rparr>"
    by (simp add: snapshot_of_def)
  from ko [THEN conjunct2, THEN conjunct2, THEN conjunct2, THEN conjunct1, THEN mp, OF h4]
  have d: "register ''Mallory'' ''alice@example.com'' ''other99'' ''zz81k0q3f'' world1 =
      (False, world1)" .
  from a b c d show ?thesis by simp
qed

end
